theory Spec2Isabelle
  imports Main
begin

section \<open>Data model\<close>

text \<open>
  The five model classes of \<^verbatim>\<open>app/models\<close> are rows of five tables. Every column
  of a class is a field of its record; a nullable column is an \<open>option\<close> (\<open>None\<close> is
  SQL \<open>NULL\<close>, Python \<open>None\<close>). A relationship attribute (\<open>classroom.department\<close>,
  \<open>user.managed_classrooms\<close>, ...) is not stored: it is the join over the foreign key or
  the association table it is declared on, computed by the getters below. Dates are
  points on a linear time line, written as integers.
\<close>

record user =
  u_id :: int
  u_first_name :: string
  u_last_name :: string
  u_login :: string
  u_registration_date :: int
  u_is_admin :: bool
  u_department_id :: "int option"

record department =
  d_id :: int
  d_full_name :: string
  d_code_name :: string
  d_manager_id :: "int option"

record building =
  b_id :: int
  b_name :: string
  b_address :: string

record classroom =
  c_id :: int
  c_name :: string
  c_floor :: int
  c_is_private :: bool
  c_building_id :: "int option"
  c_department_id :: "int option"
  c_manager_id :: "int option"

record request =
  r_id :: int
  r_start_date :: int
  r_end_date :: int
  r_registration_date :: int
  r_is_approved :: bool
  r_author_id :: "int option"
  r_classroom_id :: "int option"

text \<open>
  The database behind \<^verbatim>\<open>orm.session\<close>: one list of rows per table, in the order in
  which an unordered query returns them, and the two association tables of
  \<^verbatim>\<open>models/associations.py\<close> as lists of \<open>(user_id, classroom_id)\<close> and
  \<open>(user_id, request_id)\<close> pairs. The validators of the repositories keep every string
  within the width of its column, with one exception, which the model includes: the
  first and last name of a user are \<^verbatim>\<open>String(50)\<close> columns, \<^verbatim>\<open>validate_name\<close> admits
  100 characters, and the database refuses the longer value at the commit. A second row
  with the same \<open>UNIQUE\<close> value (\<open>Department.manager_id\<close>) is not refused by the model.
\<close>

record store =
  user_table :: "user list"
  department_table :: "department list"
  building_table :: "building list"
  classroom_table :: "classroom list"
  request_table :: "request list"
  user_occupied_classroom_association :: "(int \<times> int) list"
  user_request_association :: "(int \<times> int) list"

definition empty_store :: store where
  "empty_store = \<lparr>user_table = [], department_table = [], building_table = [],
     classroom_table = [], request_table = [], user_occupied_classroom_association = [],
     user_request_association = []\<rparr>"

text \<open>
  Every \<^verbatim>\<open>raise ValueError(...)\<close> of the services, one constructor per message; an
  f-string message carries the value it interpolates. The last constructor is not a
  \<open>ValueError\<close>: it is the \<open>DataError\<close> ("value too long for type character varying")
  that a commit raises when a statement writes a string wider than the named column.
\<close>

datatype error =
    Invalid_login
  | User_with_such_login_does_not_exist
  | User_is_not_an_administrator
  | Department_does_not_exist
  | Classroom_does_not_exist
  | Request_does_not_exist
  | Manager_with_such_login_does_not_exist
  | User_with_such_ID_does_not_exist
  | Department_for_the_given_user_does_not_exist
  | Access_denied_neither_administrator_nor_department_manager
  | Access_denied_no_rights_for_the_request
  | Invalid_name_length
  | Invalid_address_length
  | Invalid_first_name_length
  | Invalid_last_name_length
  | Invalid_login_length
  | Invalid_full_name_length
  | Invalid_code_name_length
  | Invalid_dates
  | Building_already_exists string string
  | Department_already_exists string string
  | Login_already_in_use string
  | No_building_found_with_ID int
  | No_department_found_with_ID int
  | No_classroom_found_with_ID int
  | No_user_found_with_ID int
  | No_manager_found_with_ID int
  | No_request_found_with_ID int
  | No_user_found_with_author_ID int
  | No_user_found_with_login string
  | DataError_value_too_long string

section \<open>Repositories: queries\<close>

text \<open>
  \<^verbatim>\<open>session.query(T).filter_by(col=v).first()\<close> is the first row of the table whose
  column has the value, or \<open>None\<close>.
\<close>

definition get_user_by_id :: "store \<Rightarrow> int \<Rightarrow> user option" where
  "get_user_by_id s i = find (\<lambda>u. u_id u = i) (user_table s)"

definition get_user_by_login :: "store \<Rightarrow> string \<Rightarrow> user option" where
  "get_user_by_login s login = find (\<lambda>u. u_login u = login) (user_table s)"

definition get_department_by_id :: "store \<Rightarrow> int \<Rightarrow> department option" where
  "get_department_by_id s i = find (\<lambda>d. d_id d = i) (department_table s)"

definition get_department_by_full_name :: "store \<Rightarrow> string \<Rightarrow> department option" where
  "get_department_by_full_name s n = find (\<lambda>d. d_full_name d = n) (department_table s)"

definition get_department_by_code_name :: "store \<Rightarrow> string \<Rightarrow> department option" where
  "get_department_by_code_name s n = find (\<lambda>d. d_code_name d = n) (department_table s)"

definition get_building_by_id :: "store \<Rightarrow> int \<Rightarrow> building option" where
  "get_building_by_id s i = find (\<lambda>b. b_id b = i) (building_table s)"

definition get_building_by_name :: "store \<Rightarrow> string \<Rightarrow> building option" where
  "get_building_by_name s n = find (\<lambda>b. b_name b = n) (building_table s)"

definition get_building_by_address :: "store \<Rightarrow> string \<Rightarrow> building option" where
  "get_building_by_address s a = find (\<lambda>b. b_address b = a) (building_table s)"

definition get_classroom_by_id :: "store \<Rightarrow> int \<Rightarrow> classroom option" where
  "get_classroom_by_id s i = find (\<lambda>c. c_id c = i) (classroom_table s)"

definition get_request_by_id :: "store \<Rightarrow> int \<Rightarrow> request option" where
  "get_request_by_id s i = find (\<lambda>r. r_id r = i) (request_table s)"

text \<open>
  The services also pass a nullable foreign key to a by-id query
  (\<^verbatim>\<open>get_department_by_id(classroom.get_department_id())\<close>). With \<open>None\<close> the filter is
  \<open>id IS NULL\<close>, which no row of a primary-key column satisfies: the result is \<open>None\<close>.
\<close>

definition by_nullable_id :: "(store \<Rightarrow> int \<Rightarrow> 'a option) \<Rightarrow> store \<Rightarrow> int option \<Rightarrow> 'a option" where
  "by_nullable_id q s i = (case i of None \<Rightarrow> None | Some j \<Rightarrow> q s j)"

subsection \<open>Relationship getters of the model classes\<close>

definition get_managed_classrooms :: "store \<Rightarrow> user \<Rightarrow> classroom list" where
  "get_managed_classrooms s u = filter (\<lambda>c. c_manager_id c = Some (u_id u)) (classroom_table s)"

definition get_occupied_classrooms :: "store \<Rightarrow> user \<Rightarrow> classroom list" where
  "get_occupied_classrooms s u =
     filter (\<lambda>c. (u_id u, c_id c) \<in> set (user_occupied_classroom_association s)) (classroom_table s)"

definition get_authored_requests :: "store \<Rightarrow> user \<Rightarrow> request list" where
  "get_authored_requests s u = filter (\<lambda>r. r_author_id r = Some (u_id u)) (request_table s)"

definition get_requests_of_user :: "store \<Rightarrow> user \<Rightarrow> request list" where
  "get_requests_of_user s u =
     filter (\<lambda>r. (u_id u, r_id r) \<in> set (user_request_association s)) (request_table s)"

definition get_requesting_users :: "store \<Rightarrow> request \<Rightarrow> user list" where
  "get_requesting_users s r =
     filter (\<lambda>u. (u_id u, r_id r) \<in> set (user_request_association s)) (user_table s)"

definition get_occupants :: "store \<Rightarrow> classroom \<Rightarrow> user list" where
  "get_occupants s c =
     filter (\<lambda>u. (u_id u, c_id c) \<in> set (user_occupied_classroom_association s)) (user_table s)"

definition get_requests_of_classroom :: "store \<Rightarrow> classroom \<Rightarrow> request list" where
  "get_requests_of_classroom s c = filter (\<lambda>r. r_classroom_id r = Some (c_id c)) (request_table s)"

definition get_classrooms_of_building :: "store \<Rightarrow> building \<Rightarrow> classroom list" where
  "get_classrooms_of_building s b = filter (\<lambda>c. c_building_id c = Some (b_id b)) (classroom_table s)"

definition get_users_of_department :: "store \<Rightarrow> department \<Rightarrow> user list" where
  "get_users_of_department s d = filter (\<lambda>u. u_department_id u = Some (d_id d)) (user_table s)"

definition get_classrooms_of_department :: "store \<Rightarrow> department \<Rightarrow> classroom list" where
  "get_classrooms_of_department s d =
     filter (\<lambda>c. c_department_id c = Some (d_id d)) (classroom_table s)"

section \<open>Python values and the membership test\<close>

text \<open>
  \<^verbatim>\<open>x in xs\<close> on a list is \<^verbatim>\<open>any(x is e or x == e for e in xs)\<close>. The values that
  meet in the membership tests of the authentication service are \<open>None\<close>, integers and
  \<open>Classroom\<close> objects. The model classes define no \<^verbatim>\<open>__eq__\<close>, so two objects are
  equal when they are the same object (the same row, by the session's identity map), and
  an object equals neither an integer nor \<open>None\<close>.
\<close>

datatype py_value = Py_None | Py_Int int | Py_Classroom classroom

fun py_eq :: "py_value \<Rightarrow> py_value \<Rightarrow> bool" where
  "py_eq Py_None Py_None = True"
| "py_eq (Py_Int a) (Py_Int b) = (a = b)"
| "py_eq (Py_Classroom a) (Py_Classroom b) = (c_id a = c_id b)"
| "py_eq _ _ = False"

definition py_in :: "py_value \<Rightarrow> py_value list \<Rightarrow> bool" where
  "py_in x xs = list_ex (py_eq x) xs"

definition py_of_id :: "int option \<Rightarrow> py_value" where
  "py_of_id i = (case i of None \<Rightarrow> Py_None | Some j \<Rightarrow> Py_Int j)"

section \<open>Authentication service: the permission checks\<close>

text \<open>
  A check returns \<open>Inr b\<close> for \<^verbatim>\<open>return b\<close> and \<open>Inl e\<close> for \<^verbatim>\<open>raise ValueError\<close>.
  An id argument that the service reads from a nullable column is an \<open>int option\<close>.
\<close>

definition is_user_authenticated :: "store \<Rightarrow> string \<Rightarrow> error + bool" where
  "is_user_authenticated s login =
     (case get_user_by_login s login of
        None \<Rightarrow> Inl User_with_such_login_does_not_exist
      | Some current_user \<Rightarrow> Inr True)"

definition is_user_classroom_occupant :: "store \<Rightarrow> string \<Rightarrow> int option \<Rightarrow> error + bool" where
  "is_user_classroom_occupant s login classroom_id =
     (case get_user_by_login s login of
        None \<Rightarrow> Inl Invalid_login
      | Some current_user \<Rightarrow>
          Inr (py_in (py_of_id classroom_id)
                 (map Py_Classroom (get_occupied_classrooms s current_user))))"

definition is_user_classroom_manager :: "store \<Rightarrow> string \<Rightarrow> int option \<Rightarrow> error + bool" where
  "is_user_classroom_manager s login classroom_id =
     (case get_user_by_login s login of
        None \<Rightarrow> Inl Invalid_login
      | Some current_user \<Rightarrow>
          Inr (py_in (py_of_id classroom_id)
                 (map Py_Classroom (get_managed_classrooms s current_user))))"

definition is_user_department_occupant :: "store \<Rightarrow> string \<Rightarrow> int option \<Rightarrow> error + bool" where
  "is_user_department_occupant s login department_id =
     (case get_user_by_login s login of
        None \<Rightarrow> Inl Invalid_login
      | Some current_user \<Rightarrow> Inr (u_department_id current_user = department_id))"

definition is_user_department_manager :: "store \<Rightarrow> string \<Rightarrow> int option \<Rightarrow> error + bool" where
  "is_user_department_manager s login department_id =
     (case get_user_by_login s login of
        None \<Rightarrow> Inl Invalid_login
      | Some current_user \<Rightarrow>
          (case by_nullable_id get_department_by_id s department_id of
             None \<Rightarrow> Inl Department_does_not_exist
           | Some department \<Rightarrow> Inr (d_manager_id department = Some (u_id current_user))))"

definition is_user_manager_of_department_by_classroom ::
  "store \<Rightarrow> string \<Rightarrow> int option \<Rightarrow> error + bool" where
  "is_user_manager_of_department_by_classroom s login classroom_id =
     (case get_user_by_login s login of
        None \<Rightarrow> Inl Invalid_login
      | Some current_user \<Rightarrow>
          (case by_nullable_id get_classroom_by_id s classroom_id of
             None \<Rightarrow> Inl Classroom_does_not_exist
           | Some classroom \<Rightarrow>
               (case by_nullable_id get_department_by_id s (c_department_id classroom) of
                  None \<Rightarrow> Inl Department_does_not_exist
                | Some department \<Rightarrow>
                    Inr (d_manager_id department = Some (u_id current_user)))))"

definition is_user_manager_of_another_user_department ::
  "store \<Rightarrow> string \<Rightarrow> int \<Rightarrow> error + bool" where
  "is_user_manager_of_another_user_department s manager_login user_id =
     (case get_user_by_login s manager_login of
        None \<Rightarrow> Inl Manager_with_such_login_does_not_exist
      | Some potential_manager \<Rightarrow>
          (case get_user_by_id s user_id of
             None \<Rightarrow> Inl User_with_such_ID_does_not_exist
           | Some user_in_question \<Rightarrow>
               (case by_nullable_id get_department_by_id s (u_department_id user_in_question) of
                  None \<Rightarrow> Inl Department_for_the_given_user_does_not_exist
                | Some department_of_user_in_question \<Rightarrow>
                    Inr (d_manager_id department_of_user_in_question
                           = Some (u_id potential_manager)))))"

definition is_user_classroom_manager_in_request :: "store \<Rightarrow> string \<Rightarrow> int \<Rightarrow> error + bool" where
  "is_user_classroom_manager_in_request s login request_id =
     (case get_user_by_login s login of
        None \<Rightarrow> Inl Invalid_login
      | Some manager_user \<Rightarrow>
          (case get_request_by_id s request_id of
             None \<Rightarrow> Inl Request_does_not_exist
           | Some request \<Rightarrow>
               (let classroom_id = r_classroom_id request
                in is_user_classroom_manager s login classroom_id)))"

text \<open>
  The last line of the source hands the \<^emph>\<open>department\<close> id of the request's classroom to
  \<^verbatim>\<open>is_user_manager_of_department_by_classroom\<close>, whose second parameter is a
  \<^emph>\<open>classroom\<close> id; the model does the same.
\<close>

definition is_user_department_manager_in_request :: "store \<Rightarrow> string \<Rightarrow> int \<Rightarrow> error + bool" where
  "is_user_department_manager_in_request s login request_id =
     (case get_user_by_login s login of
        None \<Rightarrow> Inl Invalid_login
      | Some manager_user \<Rightarrow>
          (case get_request_by_id s request_id of
             None \<Rightarrow> Inl Request_does_not_exist
           | Some request \<Rightarrow>
               (let classroom_id = r_classroom_id request
                in case by_nullable_id get_classroom_by_id s classroom_id of
                     None \<Rightarrow> Inl Classroom_does_not_exist
                   | Some classroom \<Rightarrow>
                       (let department_id = c_department_id classroom
                        in is_user_manager_of_department_by_classroom s login department_id))))"

definition is_user_admin :: "store \<Rightarrow> string \<Rightarrow> error + bool" where
  "is_user_admin s login =
     (case get_user_by_login s login of
        None \<Rightarrow> Inl User_with_such_login_does_not_exist
      | Some user \<Rightarrow>
          (if \<not> u_is_admin user then Inl User_is_not_an_administrator else Inr True))"

text \<open>
  The composite checks. \<^verbatim>\<open>try: if check(): return True; except ValueError: pass\<close>
  returns when the check returned \<open>True\<close> and goes on to the next statement when it
  returned \<open>False\<close> or raised.
\<close>

definition is_user_admin_or_manager_of_department_by_classroom ::
  "store \<Rightarrow> string \<Rightarrow> int option \<Rightarrow> error + bool" where
  "is_user_admin_or_manager_of_department_by_classroom s login classroom_id =
     (case is_user_admin s login of
        Inr True \<Rightarrow> Inr True
      | _ \<Rightarrow>
          (case is_user_manager_of_department_by_classroom s login classroom_id of
             Inr True \<Rightarrow> Inr True
           | _ \<Rightarrow> Inl Access_denied_neither_administrator_nor_department_manager))"

definition is_user_admin_or_manager_of_another_user_department ::
  "store \<Rightarrow> string \<Rightarrow> int \<Rightarrow> error + bool" where
  "is_user_admin_or_manager_of_another_user_department s login user_id =
     (case is_user_admin s login of
        Inr True \<Rightarrow> Inr True
      | _ \<Rightarrow>
          (case is_user_manager_of_another_user_department s login user_id of
             Inr True \<Rightarrow> Inr True
           | _ \<Rightarrow> Inl Access_denied_neither_administrator_nor_department_manager))"

definition is_user_admin_or_manager_in_request :: "store \<Rightarrow> string \<Rightarrow> int \<Rightarrow> error + bool" where
  "is_user_admin_or_manager_in_request s login request_id =
     (case is_user_admin s login of
        Inr True \<Rightarrow> Inr True
      | _ \<Rightarrow>
          (case is_user_classroom_manager_in_request s login request_id of
             Inr True \<Rightarrow> Inr True
           | _ \<Rightarrow>
               (case is_user_department_manager_in_request s login request_id of
                  Inr True \<Rightarrow> Inr True
                | _ \<Rightarrow> Inl Access_denied_no_rights_for_the_request)))"

section \<open>Operations on the store\<close>

text \<open>
  A service method runs against the store and either returns a value or raises; in both
  cases the store is left as the commits made so far have left it (every setter of the
  model classes commits by itself, and nothing rolls back). An action therefore returns
  its outcome together with the store.
\<close>

type_synonym 'a action = "store \<Rightarrow> (error + 'a) \<times> store"

definition raise :: "error \<Rightarrow> 'a action" where
  "raise e s = (Inl e, s)"

definition result :: "'a \<Rightarrow> 'a action" where
  "result x s = (Inr x, s)"

definition and_then :: "'a action \<Rightarrow> ('a \<Rightarrow> 'b action) \<Rightarrow> 'b action" where
  "and_then m f s = (case m s of (Inl e, s') \<Rightarrow> (Inl e, s') | (Inr x, s') \<Rightarrow> f x s')"

definition query :: "(store \<Rightarrow> 'a) \<Rightarrow> 'a action" where
  "query q s = (Inr (q s), s)"

definition attempt :: "(store \<Rightarrow> error + 'a) \<Rightarrow> 'a action" where
  "attempt q s = (q s, s)"

definition commit :: "(store \<Rightarrow> store) \<Rightarrow> unit action" where
  "commit f s = (Inr (), f s)"

definition skip :: "unit action" where
  "skip = result ()"

text \<open>
  \<^verbatim>\<open>if new_value:\<close> on an optional argument. Python's truth test makes \<open>None\<close>, the
  empty string, \<open>0\<close>, the empty list and \<open>False\<close> all skip the body.
\<close>

definition if_str :: "string option \<Rightarrow> (string \<Rightarrow> unit action) \<Rightarrow> unit action" where
  "if_str x body = (case x of None \<Rightarrow> skip | Some v \<Rightarrow> if v = [] then skip else body v)"

definition if_int :: "int option \<Rightarrow> (int \<Rightarrow> unit action) \<Rightarrow> unit action" where
  "if_int x body = (case x of None \<Rightarrow> skip | Some v \<Rightarrow> if v = 0 then skip else body v)"

definition if_list :: "'a list option \<Rightarrow> ('a list \<Rightarrow> unit action) \<Rightarrow> unit action" where
  "if_list x body = (case x of None \<Rightarrow> skip | Some v \<Rightarrow> if v = [] then skip else body v)"

definition if_bool :: "bool option \<Rightarrow> (bool \<Rightarrow> unit action) \<Rightarrow> unit action" where
  "if_bool x body = (case x of None \<Rightarrow> skip | Some v \<Rightarrow> if v then body v else skip)"

text \<open>
  What a column holds after \<^verbatim>\<open>if new_value: obj.set(new_value)\<close> has run without
  raising: the new value when the truth test lets it through, the old one otherwise.
  A relationship setter writes the id of the object it is given.
\<close>

definition str_or :: "string option \<Rightarrow> string \<Rightarrow> string" where
  "str_or new_value old = (case new_value of None \<Rightarrow> old | Some v \<Rightarrow> if v = [] then old else v)"

definition id_or :: "int option \<Rightarrow> int option \<Rightarrow> int option" where
  "id_or new_id old = (case new_id of None \<Rightarrow> old | Some v \<Rightarrow> if v = 0 then old else Some v)"

definition bool_or :: "bool option \<Rightarrow> bool \<Rightarrow> bool" where
  "bool_or new_value old = (case new_value of None \<Rightarrow> old | Some v \<Rightarrow> if v then v else old)"

text \<open>
  A new row gets the next value of the table's id sequence: one more than the largest id
  handed out (rows are never deleted), starting at 1.
\<close>

definition fresh_id :: "int list \<Rightarrow> int" where
  "fresh_id ids = fold max ids 0 + 1"

subsection \<open>Setters of the model classes\<close>

text \<open>
  A model object stands for the row with its primary key. A setter assigns the attribute
  and commits: the column of that row changes in the store. Setting a relationship
  attribute (\<^verbatim>\<open>self.department = department\<close>) writes the foreign key. The commit of
  a first or last name of more than 50 characters raises and writes nothing.
\<close>

definition user_set_first_name :: "user \<Rightarrow> string \<Rightarrow> unit action" where
  "user_set_first_name self new_first_name =
     (if 50 < length new_first_name then raise (DataError_value_too_long ''first_name'')
      else commit (\<lambda>s. s\<lparr>user_table :=
        map (\<lambda>u. if u_id u = u_id self then u\<lparr>u_first_name := new_first_name\<rparr> else u)
          (user_table s)\<rparr>))"

definition user_set_last_name :: "user \<Rightarrow> string \<Rightarrow> unit action" where
  "user_set_last_name self new_last_name =
     (if 50 < length new_last_name then raise (DataError_value_too_long ''last_name'')
      else commit (\<lambda>s. s\<lparr>user_table :=
        map (\<lambda>u. if u_id u = u_id self then u\<lparr>u_last_name := new_last_name\<rparr> else u)
          (user_table s)\<rparr>))"

definition user_set_department :: "user \<Rightarrow> department \<Rightarrow> unit action" where
  "user_set_department self department = commit (\<lambda>s. s\<lparr>user_table :=
     map (\<lambda>u. if u_id u = u_id self then u\<lparr>u_department_id := Some (d_id department)\<rparr> else u)
       (user_table s)\<rparr>)"

definition user_set_occupied_classrooms :: "user \<Rightarrow> classroom list \<Rightarrow> unit action" where
  "user_set_occupied_classrooms self classrooms = commit (\<lambda>s. s\<lparr>user_occupied_classroom_association :=
     filter (\<lambda>(uid, cid). uid \<noteq> u_id self) (user_occupied_classroom_association s)
       @ map (\<lambda>c. (u_id self, c_id c)) classrooms\<rparr>)"

definition department_set_manager_id :: "department \<Rightarrow> int \<Rightarrow> unit action" where
  "department_set_manager_id self user_id = commit (\<lambda>s. s\<lparr>department_table :=
     map (\<lambda>d. if d_id d = d_id self then d\<lparr>d_manager_id := Some user_id\<rparr> else d)
       (department_table s)\<rparr>)"

definition department_set_full_name :: "department \<Rightarrow> string \<Rightarrow> unit action" where
  "department_set_full_name self new_full_name = commit (\<lambda>s. s\<lparr>department_table :=
     map (\<lambda>d. if d_id d = d_id self then d\<lparr>d_full_name := new_full_name\<rparr> else d)
       (department_table s)\<rparr>)"

definition department_set_code_name :: "department \<Rightarrow> string \<Rightarrow> unit action" where
  "department_set_code_name self new_code_name = commit (\<lambda>s. s\<lparr>department_table :=
     map (\<lambda>d. if d_id d = d_id self then d\<lparr>d_code_name := new_code_name\<rparr> else d)
       (department_table s)\<rparr>)"

definition building_set_name :: "building \<Rightarrow> string \<Rightarrow> unit action" where
  "building_set_name self new_name = commit (\<lambda>s. s\<lparr>building_table :=
     map (\<lambda>b. if b_id b = b_id self then b\<lparr>b_name := new_name\<rparr> else b) (building_table s)\<rparr>)"

definition building_set_address :: "building \<Rightarrow> string \<Rightarrow> unit action" where
  "building_set_address self new_address = commit (\<lambda>s. s\<lparr>building_table :=
     map (\<lambda>b. if b_id b = b_id self then b\<lparr>b_address := new_address\<rparr> else b) (building_table s)\<rparr>)"

definition classroom_set_name :: "classroom \<Rightarrow> string \<Rightarrow> unit action" where
  "classroom_set_name self new_name = commit (\<lambda>s. s\<lparr>classroom_table :=
     map (\<lambda>c. if c_id c = c_id self then c\<lparr>c_name := new_name\<rparr> else c) (classroom_table s)\<rparr>)"

definition classroom_set_building :: "classroom \<Rightarrow> building \<Rightarrow> unit action" where
  "classroom_set_building self building = commit (\<lambda>s. s\<lparr>classroom_table :=
     map (\<lambda>c. if c_id c = c_id self then c\<lparr>c_building_id := Some (b_id building)\<rparr> else c)
       (classroom_table s)\<rparr>)"

definition classroom_set_department :: "classroom \<Rightarrow> department \<Rightarrow> unit action" where
  "classroom_set_department self department = commit (\<lambda>s. s\<lparr>classroom_table :=
     map (\<lambda>c. if c_id c = c_id self then c\<lparr>c_department_id := Some (d_id department)\<rparr> else c)
       (classroom_table s)\<rparr>)"

definition classroom_set_manager :: "classroom \<Rightarrow> user \<Rightarrow> unit action" where
  "classroom_set_manager self user = commit (\<lambda>s. s\<lparr>classroom_table :=
     map (\<lambda>c. if c_id c = c_id self then c\<lparr>c_manager_id := Some (u_id user)\<rparr> else c)
       (classroom_table s)\<rparr>)"

definition classroom_set_is_private :: "classroom \<Rightarrow> bool \<Rightarrow> unit action" where
  "classroom_set_is_private self new_value = commit (\<lambda>s. s\<lparr>classroom_table :=
     map (\<lambda>c. if c_id c = c_id self then c\<lparr>c_is_private := new_value\<rparr> else c)
       (classroom_table s)\<rparr>)"

definition request_set_author :: "request \<Rightarrow> user \<Rightarrow> unit action" where
  "request_set_author self user = commit (\<lambda>s. s\<lparr>request_table :=
     map (\<lambda>r. if r_id r = r_id self then r\<lparr>r_author_id := Some (u_id user)\<rparr> else r)
       (request_table s)\<rparr>)"

definition request_set_classroom :: "request \<Rightarrow> classroom \<Rightarrow> unit action" where
  "request_set_classroom self classroom = commit (\<lambda>s. s\<lparr>request_table :=
     map (\<lambda>r. if r_id r = r_id self then r\<lparr>r_classroom_id := Some (c_id classroom)\<rparr> else r)
       (request_table s)\<rparr>)"

definition request_set_is_approved :: "request \<Rightarrow> bool \<Rightarrow> unit action" where
  "request_set_is_approved self new_value = commit (\<lambda>s. s\<lparr>request_table :=
     map (\<lambda>r. if r_id r = r_id self then r\<lparr>r_is_approved := new_value\<rparr> else r)
       (request_table s)\<rparr>)"

definition request_set_requesting_users :: "request \<Rightarrow> user list \<Rightarrow> unit action" where
  "request_set_requesting_users self users = commit (\<lambda>s. s\<lparr>user_request_association :=
     filter (\<lambda>(uid, rid). rid \<noteq> r_id self) (user_request_association s)
       @ map (\<lambda>u. (u_id u, r_id self)) users\<rparr>)"

text \<open>
  After a commit the attributes of an object are read again from its row; a service that
  serializes the object it has just updated sees the row as it now is.
\<close>

definition reload_user :: "store \<Rightarrow> user \<Rightarrow> user" where
  "reload_user s u = (case get_user_by_id s (u_id u) of None \<Rightarrow> u | Some u' \<Rightarrow> u')"

definition reload_department :: "store \<Rightarrow> department \<Rightarrow> department" where
  "reload_department s d = (case get_department_by_id s (d_id d) of None \<Rightarrow> d | Some d' \<Rightarrow> d')"


definition reload_classroom :: "store \<Rightarrow> classroom \<Rightarrow> classroom" where
  "reload_classroom s c = (case get_classroom_by_id s (c_id c) of None \<Rightarrow> c | Some c' \<Rightarrow> c')"

definition reload_request :: "store \<Rightarrow> request \<Rightarrow> request" where
  "reload_request s r = (case get_request_by_id s (r_id r) of None \<Rightarrow> r | Some r' \<Rightarrow> r')"

section \<open>Repositories: validation, creation, updates, serialization\<close>

subsection \<open>Building\<close>

record building_json =
  bj_id :: int
  bj_name :: string
  bj_address :: string
  bj_classrooms :: "int list"

definition building_validate_name :: "string \<Rightarrow> bool" where
  "building_validate_name name = (0 < length name \<and> length name \<le> 50)"

definition validate_address :: "string \<Rightarrow> bool" where
  "validate_address address = (0 < length address \<and> length address \<le> 100)"

definition repo_create_building :: "string \<Rightarrow> string \<Rightarrow> building action" where
  "repo_create_building name address s =
     (let new_building = \<lparr>b_id = fresh_id (map b_id (building_table s)), b_name = name,
                           b_address = address\<rparr>
      in (Inr new_building, s\<lparr>building_table := building_table s @ [new_building]\<rparr>))"

definition serialize_building :: "store \<Rightarrow> building \<Rightarrow> building_json" where
  "serialize_building s building =
     \<lparr>bj_id = b_id building, bj_name = b_name building, bj_address = b_address building,
      bj_classrooms = map c_id (get_classrooms_of_building s building)\<rparr>"

subsection \<open>Department\<close>

record department_json =
  dj_id :: int
  dj_full_name :: string
  dj_code_name :: string
  dj_manager :: "int option"
  dj_users :: "int list"
  dj_classrooms :: "int list"

definition validate_full_name :: "string \<Rightarrow> bool" where
  "validate_full_name full_name = (0 < length full_name \<and> length full_name \<le> 100)"

definition validate_code_name :: "string \<Rightarrow> bool" where
  "validate_code_name code_name = (0 < length code_name \<and> length code_name \<le> 50)"

definition repo_create_department :: "string \<Rightarrow> string \<Rightarrow> department action" where
  "repo_create_department full_name code_name s =
     (let new_department = \<lparr>d_id = fresh_id (map d_id (department_table s)),
                             d_full_name = full_name, d_code_name = code_name,
                             d_manager_id = None\<rparr>
      in (Inr new_department, s\<lparr>department_table := department_table s @ [new_department]\<rparr>))"

definition update_department_full_name :: "department \<Rightarrow> string \<Rightarrow> unit action" where
  "update_department_full_name department new_full_name =
     department_set_full_name department new_full_name"

definition update_department_code_name :: "department \<Rightarrow> string \<Rightarrow> unit action" where
  "update_department_code_name department new_code_name =
     department_set_code_name department new_code_name"

definition update_department_manager :: "department \<Rightarrow> int \<Rightarrow> unit action" where
  "update_department_manager department new_manager_id =
     department_set_manager_id department new_manager_id"

definition serialize_department :: "store \<Rightarrow> department \<Rightarrow> department_json" where
  "serialize_department s department =
     \<lparr>dj_id = d_id department, dj_full_name = d_full_name department,
      dj_code_name = d_code_name department, dj_manager = d_manager_id department,
      dj_users = map u_id (get_users_of_department s department),
      dj_classrooms = map c_id (get_classrooms_of_department s department)\<rparr>"

subsection \<open>Classroom\<close>

record classroom_json =
  cj_id :: int
  cj_name :: string
  cj_floor :: int
  cj_is_private :: bool
  cj_building :: "int option"
  cj_department :: "int option"
  cj_manager :: "int option"
  cj_occupants :: "int list"
  cj_requests :: "int list"

definition classroom_validate_name :: "string \<Rightarrow> bool" where
  "classroom_validate_name name = (0 < length name \<and> length name \<le> 50)"

definition repo_create_classroom :: "string \<Rightarrow> int \<Rightarrow> bool \<Rightarrow> classroom action" where
  "repo_create_classroom name floor is_private s =
     (let new_classroom = \<lparr>c_id = fresh_id (map c_id (classroom_table s)), c_name = name,
                            c_floor = floor, c_is_private = is_private, c_building_id = None,
                            c_department_id = None, c_manager_id = None\<rparr>
      in (Inr new_classroom, s\<lparr>classroom_table := classroom_table s @ [new_classroom]\<rparr>))"

definition serialize_classroom :: "store \<Rightarrow> classroom \<Rightarrow> classroom_json" where
  "serialize_classroom s classroom =
     \<lparr>cj_id = c_id classroom, cj_name = c_name classroom, cj_floor = c_floor classroom,
      cj_is_private = c_is_private classroom, cj_building = c_building_id classroom,
      cj_department = c_department_id classroom, cj_manager = c_manager_id classroom,
      cj_occupants = map u_id (get_occupants s classroom),
      cj_requests = map r_id (get_requests_of_classroom s classroom)\<rparr>"

subsection \<open>User\<close>

record user_json =
  uj_id :: int
  uj_first_name :: string
  uj_last_name :: string
  uj_login :: string
  uj_registration_date :: int
  uj_is_admin :: bool
  uj_department :: "int option"
  uj_managed_classrooms :: "int list"
  uj_occupied_classrooms :: "int list"
  uj_authored_requests :: "int list"
  uj_requests :: "int list"

definition user_validate_name :: "string \<Rightarrow> bool" where
  "user_validate_name name = (0 < length name \<and> length name \<le> 100)"

definition validate_login :: "string \<Rightarrow> bool" where
  "validate_login login = (0 < length login \<and> length login \<le> 50)"

text \<open>
  \<open>now\<close> is what \<^verbatim>\<open>datetime.now()\<close> returns during the call. The insert of a name of
  more than 50 characters raises like the setters do, and no row is added.
\<close>

definition repo_create_user :: "int \<Rightarrow> string \<Rightarrow> string \<Rightarrow> string \<Rightarrow> bool \<Rightarrow> user action" where
  "repo_create_user now first_name last_name login is_admin s =
     (if 50 < length first_name then (Inl (DataError_value_too_long ''first_name''), s)
      else if 50 < length last_name then (Inl (DataError_value_too_long ''last_name''), s)
      else
        (let new_user = \<lparr>u_id = fresh_id (map u_id (user_table s)), u_first_name = first_name,
                          u_last_name = last_name, u_login = login, u_registration_date = now,
                          u_is_admin = is_admin, u_department_id = None\<rparr>
         in (Inr new_user, s\<lparr>user_table := user_table s @ [new_user]\<rparr>)))"

definition update_user_occupied_classrooms :: "user \<Rightarrow> classroom list \<Rightarrow> unit action" where
  "update_user_occupied_classrooms user new_occupied_classrooms =
     user_set_occupied_classrooms user new_occupied_classrooms"

definition serialize_user :: "store \<Rightarrow> user \<Rightarrow> user_json" where
  "serialize_user s user =
     \<lparr>uj_id = u_id user, uj_first_name = u_first_name user, uj_last_name = u_last_name user,
      uj_login = u_login user, uj_registration_date = u_registration_date user,
      uj_is_admin = u_is_admin user, uj_department = u_department_id user,
      uj_managed_classrooms = map c_id (get_managed_classrooms s user),
      uj_occupied_classrooms = map c_id (get_occupied_classrooms s user),
      uj_authored_requests = map r_id (get_authored_requests s user),
      uj_requests = map r_id (get_requests_of_user s user)\<rparr>"

subsection \<open>Request\<close>

record request_json =
  rj_id :: int
  rj_start_date :: int
  rj_end_date :: int
  rj_registration_date :: int
  rj_is_approved :: bool
  rj_author :: "int option"
  rj_requesting_users :: "int list"
  rj_classroom :: "int option"

definition validate_dates :: "int \<Rightarrow> int \<Rightarrow> bool" where
  "validate_dates start_date end_date = (start_date < end_date)"

definition repo_create_request :: "int \<Rightarrow> int \<Rightarrow> int \<Rightarrow> request action" where
  "repo_create_request now start_date end_date s =
     (let new_request = \<lparr>r_id = fresh_id (map r_id (request_table s)), r_start_date = start_date,
                          r_end_date = end_date, r_registration_date = now,
                          r_is_approved = False, r_author_id = None, r_classroom_id = None\<rparr>
      in (Inr new_request, s\<lparr>request_table := request_table s @ [new_request]\<rparr>))"

definition update_request_author :: "request \<Rightarrow> user \<Rightarrow> unit action" where
  "update_request_author request new_author = request_set_author request new_author"

definition update_request_classroom :: "request \<Rightarrow> classroom \<Rightarrow> unit action" where
  "update_request_classroom request new_classroom = request_set_classroom request new_classroom"

definition update_requesting_users :: "request \<Rightarrow> user list \<Rightarrow> unit action" where
  "update_requesting_users request new_requesting_users =
     request_set_requesting_users request new_requesting_users"

definition update_request_approval :: "request \<Rightarrow> bool \<Rightarrow> unit action" where
  "update_request_approval request is_approved = request_set_is_approved request is_approved"

definition serialize_request :: "store \<Rightarrow> request \<Rightarrow> request_json" where
  "serialize_request s request =
     \<lparr>rj_id = r_id request, rj_start_date = r_start_date request,
      rj_end_date = r_end_date request, rj_registration_date = r_registration_date request,
      rj_is_approved = r_is_approved request, rj_author = r_author_id request,
      rj_requesting_users = map u_id (get_requesting_users s request),
      rj_classroom = r_classroom_id request\<rparr>"

section \<open>Services\<close>

subsection \<open>BuildingService\<close>

definition create_building :: "string \<Rightarrow> string \<Rightarrow> building_json action" where
  "create_building name address =
     (if \<not> building_validate_name name then raise Invalid_name_length
      else if \<not> validate_address address then raise Invalid_address_length
      else
        and_then (query (\<lambda>s. get_building_by_name s name)) (\<lambda>existing_building_by_name.
        and_then (query (\<lambda>s. get_building_by_address s address)) (\<lambda>existing_building_by_address.
          if (case (existing_building_by_name, existing_building_by_address) of
                (Some by_name, Some by_address) \<Rightarrow> b_id by_name = b_id by_address
              | _ \<Rightarrow> False)
          then raise (Building_already_exists name address)
          else
            and_then (repo_create_building name address) (\<lambda>building.
            query (\<lambda>s. serialize_building s building)))))"


subsection \<open>DepartmentService\<close>

definition create_department :: "string \<Rightarrow> string \<Rightarrow> department_json action" where
  "create_department full_name code_name =
     (if \<not> validate_full_name full_name then raise Invalid_full_name_length
      else if \<not> validate_code_name code_name then raise Invalid_code_name_length
      else
        and_then (query (\<lambda>s. get_department_by_full_name s full_name)) (\<lambda>existing_by_full_name.
        and_then (query (\<lambda>s. get_department_by_code_name s code_name)) (\<lambda>existing_by_code_name.
          if (case (existing_by_full_name, existing_by_code_name) of
                (Some by_full_name, Some by_code_name) \<Rightarrow> d_id by_full_name = d_id by_code_name
              | _ \<Rightarrow> False)
          then raise (Department_already_exists full_name code_name)
          else
            and_then (repo_create_department full_name code_name) (\<lambda>department.
            query (\<lambda>s. serialize_department s department)))))"

definition update_department ::
  "int \<Rightarrow> string option \<Rightarrow> string option \<Rightarrow> int option \<Rightarrow> department_json action" where
  "update_department department_id new_full_name new_code_name new_manager_id =
     and_then (query (\<lambda>s. get_department_by_id s department_id)) (\<lambda>found.
     case found of
       None \<Rightarrow> raise (No_department_found_with_ID department_id)
     | Some department \<Rightarrow>
         and_then (if_str new_full_name (\<lambda>new_full_name.
           if \<not> validate_full_name new_full_name then raise Invalid_full_name_length
           else update_department_full_name department new_full_name)) (\<lambda>_.
         and_then (if_str new_code_name (\<lambda>new_code_name.
           if \<not> validate_code_name new_code_name then raise Invalid_code_name_length
           else update_department_code_name department new_code_name)) (\<lambda>_.
         and_then (if_int new_manager_id (\<lambda>new_manager_id.
           and_then (query (\<lambda>s. get_user_by_id s new_manager_id)) (\<lambda>new_manager.
           case new_manager of
             None \<Rightarrow> raise (No_manager_found_with_ID new_manager_id)
           | Some _ \<Rightarrow> update_department_manager department new_manager_id))) (\<lambda>_.
         query (\<lambda>s. serialize_department s (reload_department s department))))))"

subsection \<open>ClassroomService\<close>

definition create_classroom :: "string \<Rightarrow> int \<Rightarrow> bool \<Rightarrow> classroom_json action" where
  "create_classroom name floor is_private =
     (if \<not> classroom_validate_name name then raise Invalid_name_length
      else
        and_then (repo_create_classroom name floor is_private) (\<lambda>classroom.
        query (\<lambda>s. serialize_classroom s classroom)))"

definition update_classroom ::
  "int \<Rightarrow> string option \<Rightarrow> int option \<Rightarrow> int option \<Rightarrow> int option \<Rightarrow> bool option
     \<Rightarrow> classroom_json action" where
  "update_classroom classroom_id new_name new_building_id new_department_id new_manager_id
       new_is_private =
     and_then (query (\<lambda>s. get_classroom_by_id s classroom_id)) (\<lambda>found.
     case found of
       None \<Rightarrow> raise (No_classroom_found_with_ID classroom_id)
     | Some classroom \<Rightarrow>
         and_then (if_str new_name (\<lambda>new_name.
           if \<not> classroom_validate_name new_name then raise Invalid_name_length
           else classroom_set_name classroom new_name)) (\<lambda>_.
         and_then (if_int new_building_id (\<lambda>new_building_id.
           and_then (query (\<lambda>s. get_building_by_id s new_building_id)) (\<lambda>new_building.
           case new_building of
             None \<Rightarrow> raise (No_building_found_with_ID new_building_id)
           | Some new_building \<Rightarrow> classroom_set_building classroom new_building))) (\<lambda>_.
         and_then (if_int new_department_id (\<lambda>new_department_id.
           and_then (query (\<lambda>s. get_department_by_id s new_department_id)) (\<lambda>new_department.
           case new_department of
             None \<Rightarrow> raise (No_department_found_with_ID new_department_id)
           | Some new_department \<Rightarrow> classroom_set_department classroom new_department))) (\<lambda>_.
         and_then (if_int new_manager_id (\<lambda>new_manager_id.
           and_then (query (\<lambda>s. get_user_by_id s new_manager_id)) (\<lambda>new_manager.
           case new_manager of
             None \<Rightarrow> raise (No_manager_found_with_ID new_manager_id)
           | Some new_manager \<Rightarrow> classroom_set_manager classroom new_manager))) (\<lambda>_.
         and_then (if_bool new_is_private (\<lambda>new_is_private.
           classroom_set_is_private classroom new_is_private)) (\<lambda>_.
         query (\<lambda>s. serialize_classroom s (reload_classroom s classroom))))))))"

subsection \<open>UserService\<close>

definition create_user :: "int \<Rightarrow> string \<Rightarrow> string \<Rightarrow> string \<Rightarrow> bool \<Rightarrow> user_json action" where
  "create_user now first_name last_name login is_admin =
     (if \<not> user_validate_name first_name then raise Invalid_first_name_length
      else if \<not> user_validate_name last_name then raise Invalid_last_name_length
      else if \<not> validate_login login then raise Invalid_login_length
      else
        and_then (query (\<lambda>s. get_user_by_login s login)) (\<lambda>existing_user.
        case existing_user of
          Some _ \<Rightarrow> raise (Login_already_in_use login)
        | None \<Rightarrow>
            and_then (repo_create_user now first_name last_name login is_admin) (\<lambda>user.
            query (\<lambda>s. serialize_user s user))))"

text \<open>
  The loop of \<^verbatim>\<open>update_user\<close> over the classroom ids: it appends each classroom it
  finds and raises at the first id that has none.
\<close>

fun find_classrooms :: "store \<Rightarrow> int list \<Rightarrow> classroom list \<Rightarrow> error + classroom list" where
  "find_classrooms s [] new_occupied_classrooms = Inr new_occupied_classrooms"
| "find_classrooms s (classroom_id # ids) new_occupied_classrooms =
     (case get_classroom_by_id s classroom_id of
        None \<Rightarrow> Inl (No_classroom_found_with_ID classroom_id)
      | Some classroom \<Rightarrow> find_classrooms s ids (new_occupied_classrooms @ [classroom]))"

definition update_user ::
  "int \<Rightarrow> string option \<Rightarrow> string option \<Rightarrow> int option \<Rightarrow> int list option \<Rightarrow> user_json action" where
  "update_user user_id new_first_name new_last_name new_department_id new_occupied_classroom_ids =
     and_then (query (\<lambda>s. get_user_by_id s user_id)) (\<lambda>found.
     case found of
       None \<Rightarrow> raise (No_user_found_with_ID user_id)
     | Some user \<Rightarrow>
         and_then (if_str new_first_name (\<lambda>new_first_name.
           if \<not> user_validate_name new_first_name then raise Invalid_first_name_length
           else user_set_first_name user new_first_name)) (\<lambda>_.
         and_then (if_str new_last_name (\<lambda>new_last_name.
           if \<not> user_validate_name new_last_name then raise Invalid_last_name_length
           else user_set_last_name user new_last_name)) (\<lambda>_.
         and_then (if_int new_department_id (\<lambda>new_department_id.
           and_then (query (\<lambda>s. get_department_by_id s new_department_id)) (\<lambda>new_department.
           case new_department of
             None \<Rightarrow> raise (No_department_found_with_ID new_department_id)
           | Some new_department \<Rightarrow> user_set_department user new_department))) (\<lambda>_.
         and_then (if_list new_occupied_classroom_ids (\<lambda>new_occupied_classroom_ids.
           and_then (attempt (\<lambda>s. find_classrooms s new_occupied_classroom_ids []))
             (\<lambda>new_occupied_classrooms.
           update_user_occupied_classrooms user new_occupied_classrooms))) (\<lambda>_.
         query (\<lambda>s. serialize_user s (reload_user s user)))))))"

subsection \<open>RequestService\<close>

definition approve_reservation_request :: "int \<Rightarrow> int \<Rightarrow> request_json action" where
  "approve_reservation_request request_id manager_id =
     and_then (query (\<lambda>s. get_request_by_id s request_id)) (\<lambda>found.
     case found of
       None \<Rightarrow> raise (No_request_found_with_ID request_id)
     | Some request_to_approve \<Rightarrow>
         and_then (query (\<lambda>s. get_user_by_id s manager_id)) (\<lambda>manager.
         case manager of
           None \<Rightarrow> raise (No_manager_found_with_ID manager_id)
         | Some _ \<Rightarrow>
             and_then (update_request_approval request_to_approve True) (\<lambda>_.
             query (\<lambda>s. serialize_request s (reload_request s request_to_approve)))))"

text \<open>The loop over the logins of the requesting users, in both request methods.\<close>

fun find_requesting_users :: "store \<Rightarrow> string list \<Rightarrow> user list \<Rightarrow> error + user list" where
  "find_requesting_users s [] requesting_users = Inr requesting_users"
| "find_requesting_users s (login # logins) requesting_users =
     (case get_user_by_login s login of
        None \<Rightarrow> Inl (No_user_found_with_login login)
      | Some user \<Rightarrow> find_requesting_users s logins (requesting_users @ [user]))"

definition create_reservation_request ::
  "int \<Rightarrow> int \<Rightarrow> int \<Rightarrow> int \<Rightarrow> int \<Rightarrow> string list \<Rightarrow> request_json action" where
  "create_reservation_request now start_date end_date author_id classroom_id requesting_user_logins =
     (if \<not> validate_dates start_date end_date then raise Invalid_dates
      else
        and_then (query (\<lambda>s. get_user_by_id s author_id)) (\<lambda>author.
        case author of
          None \<Rightarrow> raise (No_user_found_with_author_ID author_id)
        | Some author \<Rightarrow>
            and_then (query (\<lambda>s. get_classroom_by_id s classroom_id)) (\<lambda>classroom.
            case classroom of
              None \<Rightarrow> raise (No_classroom_found_with_ID classroom_id)
            | Some classroom \<Rightarrow>
                and_then (attempt (\<lambda>s. find_requesting_users s requesting_user_logins []))
                  (\<lambda>requesting_users.
                and_then (repo_create_request now start_date end_date) (\<lambda>new_request.
                and_then (update_request_author new_request author) (\<lambda>_.
                and_then (update_request_classroom new_request classroom) (\<lambda>_.
                and_then (update_requesting_users new_request requesting_users) (\<lambda>_.
                query (\<lambda>s. serialize_request s (reload_request s new_request))))))))))"


section \<open>Example store\<close>

text \<open>
  A small campus. The users \<open>al\<close>, \<open>bea\<close> and \<open>carl\<close> have the ids 1, 2 and 3; none is
  an administrator. Department 1 (Mathematics) is managed by \<open>bea\<close>, department 2
  (Physics) by \<open>al\<close>. Classroom 1 belongs to department 2 and is managed and occupied by
  \<open>al\<close>; classroom 2 belongs to department 1. Request 1, written by \<open>bea\<close>, is for
  classroom 1.
\<close>

definition campus :: store where
  "campus = \<lparr>user_table =
       [\<lparr>u_id = 1, u_first_name = ''Al'', u_last_name = ''Lee'', u_login = ''al'',
         u_registration_date = 0, u_is_admin = False, u_department_id = None\<rparr>,
        \<lparr>u_id = 2, u_first_name = ''Bea'', u_last_name = ''Roy'', u_login = ''bea'',
         u_registration_date = 1, u_is_admin = False, u_department_id = Some 1\<rparr>,
        \<lparr>u_id = 3, u_first_name = ''Carl'', u_last_name = ''Poe'', u_login = ''carl'',
         u_registration_date = 2, u_is_admin = False, u_department_id = None\<rparr>],
     department_table =
       [\<lparr>d_id = 1, d_full_name = ''Mathematics'', d_code_name = ''MATH'',
         d_manager_id = Some 2\<rparr>,
        \<lparr>d_id = 2, d_full_name = ''Physics'', d_code_name = ''PHYS'',
         d_manager_id = Some 1\<rparr>],
     building_table =
       [\<lparr>b_id = 1, b_name = ''Main'', b_address = ''Main Street 1''\<rparr>],
     classroom_table =
       [\<lparr>c_id = 1, c_name = ''R1'', c_floor = 1, c_is_private = True, c_building_id = Some 1,
         c_department_id = Some 2, c_manager_id = Some 1\<rparr>,
        \<lparr>c_id = 2, c_name = ''R2'', c_floor = 2, c_is_private = False, c_building_id = Some 1,
         c_department_id = Some 1, c_manager_id = None\<rparr>],
     request_table =
       [\<lparr>r_id = 1, r_start_date = 10, r_end_date = 20, r_registration_date = 5,
         r_is_approved = False, r_author_id = Some 2, r_classroom_id = Some 1\<rparr>],
     user_occupied_classroom_association = [(1, 1)],
     user_request_association = [(2, 1)]\<rparr>"

section \<open>Auxiliary facts\<close>

lemmas action_defs = raise_def result_def and_then_def query_def attempt_def commit_def skip_def
  if_str_def if_int_def if_list_def if_bool_def

lemmas campus_queries = campus_def get_user_by_id_def get_user_by_login_def
  get_department_by_id_def get_building_by_id_def get_classroom_by_id_def get_request_by_id_def

text \<open>
  The campus is what fifteen calls of the services make of the empty store (the clock
  reads 0, 1, 2 at the three user creations and 5 at the request creation).
\<close>

lemma campus_reachable:
  "fold id
     [snd \<circ> create_user 0 ''Al'' ''Lee'' ''al'' False,
      snd \<circ> create_user 1 ''Bea'' ''Roy'' ''bea'' False,
      snd \<circ> create_user 2 ''Carl'' ''Poe'' ''carl'' False,
      snd \<circ> create_department ''Mathematics'' ''MATH'',
      snd \<circ> create_department ''Physics'' ''PHYS'',
      snd \<circ> update_department 1 None None (Some 2),
      snd \<circ> update_department 2 None None (Some 1),
      snd \<circ> create_building ''Main'' ''Main Street 1'',
      snd \<circ> create_classroom ''R1'' 1 True,
      snd \<circ> create_classroom ''R2'' 2 False,
      snd \<circ> update_classroom 1 None (Some 1) (Some 2) (Some 1) None,
      snd \<circ> update_classroom 2 None (Some 1) (Some 1) None None,
      snd \<circ> update_user 1 None None None (Some [1]),
      snd \<circ> update_user 2 None None (Some 1) None,
      snd \<circ> create_reservation_request 5 10 20 2 1 [''bea'']]
     empty_store
   = campus"
  by code_simp

lemma find_map_same_key:
  "(\<And>x. P (f x) = P x) \<Longrightarrow> find P (map f xs) = map_option f (find P xs)"
  by (induction xs) auto

lemma find_append_fresh:
  "(\<And>x. x \<in> set xs \<Longrightarrow> \<not> P x) \<Longrightarrow> find P (xs @ [y]) = (if P y then Some y else None)"
  by (induction xs) auto

lemma find_Some_holds: "find P xs = Some x \<Longrightarrow> P x"
  by (induction xs) (auto split: if_splits)

lemma fold_max_ge_init: "(a::int) \<le> fold max ids a"
proof (induction ids arbitrary: a)
  case Nil
  show ?case by simp
next
  case (Cons x xs)
  have "a \<le> max x a" by simp
  also have "max x a \<le> fold max xs (max x a)" by (rule Cons.IH)
  finally show ?case by simp
qed

lemma fold_max_ge: "(i::int) \<in> set ids \<Longrightarrow> i \<le> fold max ids a"
proof (induction ids arbitrary: a)
  case Nil
  then show ?case by simp
next
  case (Cons x xs)
  show ?case
  proof (cases "i = x")
    case True
    have "i \<le> max x a" using True by simp
    also have "max x a \<le> fold max xs (max x a)" by (rule fold_max_ge_init)
    finally show ?thesis by simp
  next
    case False
    with Cons.prems have "i \<in> set xs" by simp
    then show ?thesis using Cons.IH by simp
  qed
qed

lemma fresh_id_greater: "i \<in> set ids \<Longrightarrow> i < fresh_id ids"
  using fold_max_ge [of i ids 0] by (simp add: fresh_id_def)

lemma get_request_by_id_id: "get_request_by_id s i = Some r \<Longrightarrow> r_id r = i"
  unfolding get_request_by_id_def by (rule find_Some_holds)

lemma py_in_id_classrooms: "py_in (py_of_id i) (map Py_Classroom cs) = False"
  by (induction cs) (auto simp: py_in_def py_of_id_def split: option.splits)

lemmas auth_defs = is_user_admin_def is_user_classroom_manager_def
  is_user_classroom_manager_in_request_def is_user_department_manager_in_request_def
  is_user_manager_of_department_by_classroom_def is_user_admin_or_manager_in_request_def
  is_user_admin_or_manager_of_department_by_classroom_def by_nullable_id_def
  get_managed_classrooms_def py_in_def py_of_id_def

lemma map_update_fresh:
  "(\<And>x. x \<in> set xs \<Longrightarrow> key x \<noteq> k) \<Longrightarrow> map (\<lambda>x. if key x = k then g x else x) xs = xs"
  by (induction xs) auto

lemma fresh_request_id:
  "r \<in> set (request_table s) \<Longrightarrow> r_id r \<noteq> fresh_id (map r_id (request_table s))"
  using fresh_id_greater [of "r_id r" "map r_id (request_table s)"] by auto

lemma get_department_by_id_id: "get_department_by_id s i = Some d \<Longrightarrow> d_id d = i"
  unfolding get_department_by_id_def by (rule find_Some_holds)

lemma get_department_by_id_map:
  "(\<And>d. d_id (f d) = d_id d) \<Longrightarrow>
   get_department_by_id (s\<lparr>department_table := map f (department_table s)\<rparr>) i
     = map_option f (get_department_by_id s i)"
  by (simp add: get_department_by_id_def find_map_same_key)

text \<open>
  A successful request creation, step by step: the new row gets the next id, the three
  setters change that row only, and the reloaded row is the one serialized.
\<close>

lemma create_reservation_request_success:
  fixes now :: int
  assumes "start_date < end_date" "get_user_by_id s author_id = Some author"
    "get_classroom_by_id s classroom_id = Some classroom"
    "find_requesting_users s logins [] = Inr users"
  defines "R \<equiv> \<lparr>r_id = fresh_id (map r_id (request_table s)), r_start_date = start_date,
      r_end_date = end_date, r_registration_date = now, r_is_approved = False,
      r_author_id = Some (u_id author), r_classroom_id = Some (c_id classroom)\<rparr>"
  defines "S \<equiv> s\<lparr>request_table := request_table s @ [R],
       user_request_association :=
         filter (\<lambda>(uid, rid). rid \<noteq> r_id R) (user_request_association s)
           @ map (\<lambda>u. (u_id u, r_id R)) users\<rparr>"
  shows "create_reservation_request now start_date end_date author_id classroom_id logins s
     = (Inr (serialize_request S R), S)"
    and "get_request_by_id S (r_id R) = Some R"
proof -
  have fresh: "\<And>r. r \<in> set (request_table s) \<Longrightarrow> r_id r \<noteq> r_id R"
    using fresh_request_id by (simp add: R_def)
  show g: "get_request_by_id S (r_id R) = Some R"
    using fresh by (simp add: S_def get_request_by_id_def find_append_fresh)
  have m: "map (\<lambda>r. if r_id r = r_id R then g r else r) (request_table s) = request_table s" for g
    using fresh by (rule map_update_fresh)
  show "create_reservation_request now start_date end_date author_id classroom_id logins s
     = (Inr (serialize_request S R), S)"
    using assms(1-4) g[unfolded S_def] m[unfolded R_def, simplified]
    by (simp add: create_reservation_request_def validate_dates_def action_defs
        repo_create_request_def update_request_author_def update_request_classroom_def
        update_requesting_users_def request_set_author_def request_set_classroom_def
        request_set_requesting_users_def Let_def reload_request_def S_def R_def del: map_map)
qed

text \<open>
  A successful department update that supplies a manager id stores it, and touches
  neither users nor classrooms.
\<close>

lemma update_department_manager_effect:
  assumes run: "update_department department_id nfn ncn (Some b) s = (Inr j, s')"
    and b: "b \<noteq> 0" and d: "get_department_by_id s department_id = Some d"
  shows "user_table s' = user_table s \<and> classroom_table s' = classroom_table s
     \<and> (\<exists>d'. get_department_by_id s' department_id = Some d' \<and> d_manager_id d' = Some b)"
proof -
  have did: "d_id d = department_id" using d by (rule get_department_by_id_id)
  show ?thesis using run b d did
    by (auto simp: update_department_def action_defs update_department_full_name_def
      update_department_code_name_def update_department_manager_def department_set_full_name_def
      department_set_code_name_def department_set_manager_id_def get_department_by_id_map
      get_user_by_id_def
      split: option.splits if_splits prod.splits sum.splits)
qed

subsection \<open>Running actions\<close>



lemma skipped [simp]:
  "if_str None b1 = skip" "if_int None b2 = skip" "if_list None b3 = skip"
  "if_bool None b4 = skip" "if_bool (Some False) b4 = skip" "and_then skip f = f ()"
  by (simp_all add: action_defs fun_eq_iff)







lemma setters_succeed [simp]:
  "fst (user_set_department u d s) = Inr ()"
  "fst (update_user_occupied_classrooms u cs s) = Inr ()"
  "fst (building_set_name b n s) = Inr ()"
  "fst (building_set_address b n s) = Inr ()"
  "fst (update_department_full_name d n s) = Inr ()"
  "fst (update_department_code_name d n s) = Inr ()"
  "fst (update_department_manager d i s) = Inr ()"
  "fst (classroom_set_name c n s) = Inr ()"
  "fst (classroom_set_building c b s) = Inr ()"
  "fst (classroom_set_department c d s) = Inr ()"
  "fst (classroom_set_manager c u s) = Inr ()"
  "fst (classroom_set_is_private c v s) = Inr ()"
  "fst (update_request_author r u s) = Inr ()"
  "fst (update_request_classroom r c s) = Inr ()"
  "fst (update_requesting_users r us s) = Inr ()"
  by (simp_all add: user_set_department_def
      update_user_occupied_classrooms_def user_set_occupied_classrooms_def
      building_set_name_def building_set_address_def update_department_full_name_def
      update_department_code_name_def update_department_manager_def
      department_set_full_name_def department_set_code_name_def department_set_manager_id_def
      classroom_set_name_def classroom_set_building_def classroom_set_department_def
      classroom_set_manager_def classroom_set_is_private_def update_request_author_def
      update_request_classroom_def update_requesting_users_def request_set_author_def
      request_set_classroom_def request_set_requesting_users_def commit_def)


subsection \<open>What an action leaves unchanged\<close>

lemma keeps_and_then:
  assumes "\<And>s. P (snd (m s)) = P s" "\<And>x s. P (snd (f x s)) = P s"
  shows "P (snd (and_then m f s)) = P s"
proof (cases "m s")
  case (Pair r s1)
  have s1: "P s1 = P s" using assms(1) [of s] Pair by simp
  show ?thesis
  proof (cases r)
    case (Inl e)
    then show ?thesis using Pair s1 by (simp add: and_then_def)
  next
    case (Inr x)
    then show ?thesis using Pair s1 assms(2) [of x s1] by (simp add: and_then_def)
  qed
qed

lemma keeps_if:
  assumes "\<And>v s. P (snd (body v s)) = P s"
  shows "P (snd (if_str x1 body s)) = P s" 
  using assms by (simp add: if_str_def skip_def result_def split: option.splits)

lemma keeps_if_int:
  assumes "\<And>v s. P (snd (body v s)) = P s"
  shows "P (snd (if_int x1 body s)) = P s" 
  using assms by (simp add: if_int_def skip_def result_def split: option.splits)

lemma same_privacy_find:
  "map (\<lambda>c. (c_id c, c_is_private c)) xs = map (\<lambda>c. (c_id c, c_is_private c)) ys \<Longrightarrow>
   find (\<lambda>c. c_id c = i) ys = Some c \<Longrightarrow>
   \<exists>c'. find (\<lambda>c. c_id c = i) xs = Some c' \<and> c_is_private c' = c_is_private c"
proof (induction xs arbitrary: ys)
  case Nil
  then show ?case by simp
next
  case (Cons x xs)
  then obtain y ys' where ys: "ys = y # ys'" by (cases ys) auto
  with Cons.prems have h: "c_id x = c_id y" "c_is_private x = c_is_private y"
    "map (\<lambda>c. (c_id c, c_is_private c)) xs = map (\<lambda>c. (c_id c, c_is_private c)) ys'" by auto
  show ?case
  proof (cases "c_id y = i")
    case True
    then show ?thesis using Cons.prems(2) ys h by simp
  next
    case False
    then have "find (\<lambda>c. c_id c = i) ys' = Some c" using Cons.prems(2) ys by simp
    from Cons.IH [OF h(3) this] show ?thesis using False h by simp
  qed
qed

lemmas keeps_privacy =
  keeps_and_then [where P = "\<lambda>s. map (\<lambda>c. (c_id c, c_is_private c)) (classroom_table s)"]
  keeps_if [where P = "\<lambda>s. map (\<lambda>c. (c_id c, c_is_private c)) (classroom_table s)"]
  keeps_if_int [where P = "\<lambda>s. map (\<lambda>c. (c_id c, c_is_private c)) (classroom_table s)"]

lemma update_classroom_keeps_privacy:
  "map (\<lambda>c. (c_id c, c_is_private c))
     (classroom_table (snd (update_classroom classroom_id nn nb nd nm None s)))
   = map (\<lambda>c. (c_id c, c_is_private c)) (classroom_table s)"
  unfolding update_classroom_def
  by (intro keeps_privacy)
     (auto simp: query_def raise_def commit_def classroom_set_name_def classroom_set_building_def
        classroom_set_department_def classroom_set_manager_def if_bool_def skip_def result_def
        split: option.splits intro!: keeps_privacy)


subsection \<open>Definitions to unfold when a service runs on a concrete store\<close>


lemmas department_update_defs = update_department_def update_department_full_name_def
  update_department_code_name_def update_department_manager_def department_set_full_name_def
  department_set_code_name_def department_set_manager_id_def reload_department_def
  serialize_department_def get_users_of_department_def get_classrooms_of_department_def
  validate_full_name_def validate_code_name_def





subsection \<open>What an update has written when it returns or raises\<close>




lemma or_None [simp]:
  "str_or None old = old" "id_or None old_id = old_id" "bool_or None old_flag = old_flag"
  by (simp_all add: str_or_def id_or_def bool_or_def)











section \<open>Request approval\<close>

text \<open>
  Claim C8. \<^verbatim>\<open>approve_reservation_request\<close> raises "No request found" when the request
  id has no row and "No manager found" when the manager id has no user, and leaves the
  store as it was in both cases. For every existing request and every existing user given
  as the manager it succeeds: \<open>is_approved\<close> of that request becomes \<open>True\<close> (nothing else
  in the store changes) and the returned serialization says so. Nothing about the user is
  looked at beyond existence: no authority over the request is checked.
\<close>

theorem approve_reservation_request_unconditional:
  "(get_request_by_id s request_id = None \<longrightarrow>
      approve_reservation_request request_id manager_id s
        = (Inl (No_request_found_with_ID request_id), s))
   \<and> (get_request_by_id s request_id \<noteq> None \<and> get_user_by_id s manager_id = None \<longrightarrow>
      approve_reservation_request request_id manager_id s
        = (Inl (No_manager_found_with_ID manager_id), s))
   \<and> (get_request_by_id s request_id \<noteq> None \<and> get_user_by_id s manager_id \<noteq> None \<longrightarrow>
      (\<exists>j r. approve_reservation_request request_id manager_id s =
          (Inr j, s\<lparr>request_table :=
             map (\<lambda>r. if r_id r = request_id then r\<lparr>r_is_approved := True\<rparr> else r)
               (request_table s)\<rparr>)
        \<and> rj_is_approved j
        \<and> get_request_by_id (snd (approve_reservation_request request_id manager_id s)) request_id
            = Some r
        \<and> r_is_approved r))"
proof (intro conjI impI)
  assume "get_request_by_id s request_id = None"
  then show "approve_reservation_request request_id manager_id s
      = (Inl (No_request_found_with_ID request_id), s)"
    by (simp add: approve_reservation_request_def action_defs)
next
  assume "get_request_by_id s request_id \<noteq> None \<and> get_user_by_id s manager_id = None"
  then show "approve_reservation_request request_id manager_id s
      = (Inl (No_manager_found_with_ID manager_id), s)"
    by (auto simp add: approve_reservation_request_def action_defs)
next
  assume "get_request_by_id s request_id \<noteq> None \<and> get_user_by_id s manager_id \<noteq> None"
  then obtain r0 m where r0: "get_request_by_id s request_id = Some r0"
    and m: "get_user_by_id s manager_id = Some m" by auto
  have rid: "r_id r0 = request_id" using r0 by (rule get_request_by_id_id)
  let ?f = "\<lambda>r. if r_id r = request_id then r\<lparr>r_is_approved := True\<rparr> else r"
  let ?s' = "s\<lparr>request_table := map ?f (request_table s)\<rparr>"
  have g: "get_request_by_id ?s' request_id = Some (?f r0)"
    using r0 by (simp add: get_request_by_id_def find_map_same_key)
  have run: "approve_reservation_request request_id manager_id s =
     (Inr (serialize_request ?s' (?f r0)), ?s')"
    using r0 m rid g
    by (simp add: approve_reservation_request_def action_defs update_request_approval_def
        request_set_is_approved_def reload_request_def)
  show "\<exists>j r. approve_reservation_request request_id manager_id s = (Inr j, ?s')
        \<and> rj_is_approved j
        \<and> get_request_by_id (snd (approve_reservation_request request_id manager_id s)) request_id
            = Some r
        \<and> r_is_approved r"
    using run g rid by (simp add: serialize_request_def)
qed

text \<open>
  On the campus: \<open>carl\<close>, user 3, manages nothing and approves request 1; there is no
  request 9 and no user 9.
\<close>

theorem approve_reservation_request_unconditional_witness:
  "get_request_by_id campus 9 = None
   \<and> approve_reservation_request 9 3 campus = (Inl (No_request_found_with_ID 9), campus)
   \<and> get_request_by_id campus 1 \<noteq> None \<and> get_user_by_id campus 9 = None
   \<and> approve_reservation_request 1 9 campus = (Inl (No_manager_found_with_ID 9), campus)
   \<and> get_user_by_id campus 3 \<noteq> None
   \<and> (\<exists>j r. fst (approve_reservation_request 1 3 campus) = Inr j \<and> rj_is_approved j
        \<and> get_request_by_id (snd (approve_reservation_request 1 3 campus)) 1 = Some r
        \<and> r_is_approved r)"
proof -
  have h1: "get_request_by_id campus 9 = None" by (simp add: campus_queries)
  have h2: "get_request_by_id campus 1 \<noteq> None \<and> get_user_by_id campus 9 = None"
    by (simp add: campus_queries)
  have h3: "get_request_by_id campus 1 \<noteq> None \<and> get_user_by_id campus 3 \<noteq> None"
    by (simp add: campus_queries)
  from approve_reservation_request_unconditional [of campus 9 3] h1
  have c1: "approve_reservation_request 9 3 campus = (Inl (No_request_found_with_ID 9), campus)"
    by blast
  from approve_reservation_request_unconditional [of campus 1 9] h2
  have c2: "approve_reservation_request 1 9 campus = (Inl (No_manager_found_with_ID 9), campus)"
    by blast
  from approve_reservation_request_unconditional [of campus 1 3] h3
  have c3: "\<exists>j r. fst (approve_reservation_request 1 3 campus) = Inr j \<and> rj_is_approved j
        \<and> get_request_by_id (snd (approve_reservation_request 1 3 campus)) 1 = Some r
        \<and> r_is_approved r"
    by force
  show ?thesis using h1 h2 h3 c1 c2 c3 by blast
qed

section \<open>Membership tests of the authentication service\<close>

text \<open>
  Claim C10. For every existing login and every integer classroom id,
  \<^verbatim>\<open>is_user_classroom_manager\<close> and \<^verbatim>\<open>is_user_classroom_occupant\<close> return \<open>False\<close>:
  the id is looked for in a list of \<open>Classroom\<close> objects, which it never equals. So the
  classroom-manager check on a request never returns \<open>True\<close>, and the composite check on
  a request grants access exactly when one of its two other checks does. (The classroom
  occupant check is part of no composite check.)
\<close>

theorem classroom_membership_checks_never_grant:
  "(get_user_by_login s login \<noteq> None \<longrightarrow>
      is_user_classroom_manager s login (Some classroom_id) = Inr False \<and>
      is_user_classroom_occupant s login (Some classroom_id) = Inr False)
   \<and> is_user_classroom_manager_in_request s login request_id \<noteq> Inr True
   \<and> (is_user_admin_or_manager_in_request s login request_id = Inr True \<longleftrightarrow>
        is_user_admin s login = Inr True \<or>
        is_user_department_manager_in_request s login request_id = Inr True)"
proof -
  have m: "is_user_classroom_manager s login i \<noteq> Inr True" for i
    by (simp add: is_user_classroom_manager_def py_in_id_classrooms split: option.splits)
  have r: "is_user_classroom_manager_in_request s login request_id \<noteq> Inr True"
    using m by (simp add: is_user_classroom_manager_in_request_def split: option.splits)
  have c: "is_user_admin_or_manager_in_request s login request_id = Inr True \<longleftrightarrow>
       is_user_admin s login = Inr True \<or>
       is_user_department_manager_in_request s login request_id = Inr True"
    using r by (auto simp: is_user_admin_or_manager_in_request_def split: sum.splits bool.splits)
  show ?thesis using r c
    by (auto simp: is_user_classroom_manager_def is_user_classroom_occupant_def
        py_in_id_classrooms)
qed

text \<open>On the campus \<open>al\<close> does manage and occupy classroom 1, and both checks say no.\<close>

theorem classroom_membership_checks_never_grant_witness:
  "get_user_by_login campus ''al'' \<noteq> None
   \<and> map c_id (get_managed_classrooms campus (the (get_user_by_login campus ''al''))) = [1]
   \<and> map c_id (get_occupied_classrooms campus (the (get_user_by_login campus ''al''))) = [1]
   \<and> is_user_classroom_manager campus ''al'' (Some 1) = Inr False
   \<and> is_user_classroom_occupant campus ''al'' (Some 1) = Inr False"
proof -
  have h: "get_user_by_login campus ''al'' \<noteq> None" by (simp add: campus_queries)
  have l: "map c_id (get_managed_classrooms campus (the (get_user_by_login campus ''al''))) = [1]
     \<and> map c_id (get_occupied_classrooms campus (the (get_user_by_login campus ''al''))) = [1]"
    by (simp add: campus_queries get_managed_classrooms_def get_occupied_classrooms_def)
  from classroom_membership_checks_never_grant [of campus "''al''" 1 1] h
  have "is_user_classroom_manager campus ''al'' (Some 1) = Inr False
     \<and> is_user_classroom_occupant campus ''al'' (Some 1) = Inr False"
    by blast
  then show ?thesis using h l by blast
qed

section \<open>Request creation\<close>

text \<open>
  Claim C5. \<^verbatim>\<open>create_reservation_request\<close> rejects every input whose start date is not
  before its end date with "Invalid dates", the store untouched; a request it creates is
  not approved and carries the server's clock reading \<open>now\<close> as registration date, in the
  returned serialization and in the stored row (whose id is new), whatever the arguments
  of the call; and whenever it raises, nothing has been written. The method has no
  parameter for either value.
\<close>

theorem create_reservation_request_dates_and_stamp:
  "(\<not> start_date < end_date \<longrightarrow>
      create_reservation_request now start_date end_date author_id classroom_id logins s
        = (Inl Invalid_dates, s))
   \<and> (create_reservation_request now start_date end_date author_id classroom_id logins s
        = (Inr j, s') \<longrightarrow>
      start_date < end_date \<and> \<not> rj_is_approved j \<and> rj_registration_date j = now
      \<and> rj_id j \<notin> set (map r_id (request_table s))
      \<and> (\<exists>r. get_request_by_id s' (rj_id j) = Some r \<and> \<not> r_is_approved r
             \<and> r_registration_date r = now \<and> r_start_date r = start_date
             \<and> r_end_date r = end_date))
   \<and> (create_reservation_request now start_date end_date author_id classroom_id logins s
        = (Inl e, s') \<longrightarrow> s' = s)"
proof -
  let ?run = "create_reservation_request now start_date end_date author_id classroom_id logins s"
  have bad_dates: "\<not> start_date < end_date \<Longrightarrow> ?run = (Inl Invalid_dates, s)"
    by (simp add: create_reservation_request_def validate_dates_def action_defs)
  have no_author: "start_date < end_date \<Longrightarrow> get_user_by_id s author_id = None
      \<Longrightarrow> ?run = (Inl (No_user_found_with_author_ID author_id), s)"
    by (simp add: create_reservation_request_def validate_dates_def action_defs)
  have no_classroom: "start_date < end_date \<Longrightarrow> get_user_by_id s author_id = Some a
      \<Longrightarrow> get_classroom_by_id s classroom_id = None
      \<Longrightarrow> ?run = (Inl (No_classroom_found_with_ID classroom_id), s)" for a
    by (simp add: create_reservation_request_def validate_dates_def action_defs)
  have no_login: "start_date < end_date \<Longrightarrow> get_user_by_id s author_id = Some a
      \<Longrightarrow> get_classroom_by_id s classroom_id = Some c
      \<Longrightarrow> find_requesting_users s logins [] = Inl x
      \<Longrightarrow> ?run = (Inl x, s)" for a c x
    by (simp add: create_reservation_request_def validate_dates_def action_defs)
  consider (dates) "\<not> start_date < end_date"
    | (author) "start_date < end_date" "get_user_by_id s author_id = None"
    | (classroom) a where "start_date < end_date" "get_user_by_id s author_id = Some a"
        "get_classroom_by_id s classroom_id = None"
    | (login) a c x where "start_date < end_date" "get_user_by_id s author_id = Some a"
        "get_classroom_by_id s classroom_id = Some c" "find_requesting_users s logins [] = Inl x"
    | (ok) a c us where "start_date < end_date" "get_user_by_id s author_id = Some a"
        "get_classroom_by_id s classroom_id = Some c" "find_requesting_users s logins [] = Inr us"
    by (cases "get_user_by_id s author_id"; cases "get_classroom_by_id s classroom_id";
        cases "find_requesting_users s logins []") auto
  then show ?thesis
  proof cases
    case dates
    then show ?thesis using bad_dates by simp
  next
    case author
    then show ?thesis using no_author by simp
  next
    case classroom
    then show ?thesis using no_classroom by simp
  next
    case login
    then show ?thesis using no_login by simp
  next
    case ok
    note run = create_reservation_request_success [OF ok, of now]
    have fresh: "fresh_id (map r_id (request_table s)) \<notin> set (map r_id (request_table s))"
      using fresh_id_greater [of "fresh_id (map r_id (request_table s))"
          "map r_id (request_table s)"]
      by auto
    show ?thesis using ok(1) run fresh
      by (auto simp: serialize_request_def)
  qed
qed

text \<open>
  On the campus, at clock reading 42: equal dates are rejected; a request from 10 to 20
  by user 2 for classroom 1 is created with id 2, unapproved, stamped 42.
\<close>

theorem create_reservation_request_dates_and_stamp_witness:
  "\<not> (20::int) < 20
   \<and> create_reservation_request 42 20 20 2 1 [''al''] campus = (Inl Invalid_dates, campus)
   \<and> (\<exists>j. fst (create_reservation_request 42 10 20 2 1 [''al'', ''bea''] campus) = Inr j
        \<and> \<not> rj_is_approved j \<and> rj_registration_date j = 42 \<and> rj_id j = 2)"
proof -
  let ?run = "create_reservation_request 42 10 20 2 1 [''al'', ''bea''] campus"
  have ok: "isl (fst ?run) = False \<and> rj_id (projr (fst ?run)) = 2"
    by (simp add: campus_queries action_defs create_reservation_request_def validate_dates_def
        repo_create_request_def fresh_id_def update_request_author_def
        update_request_classroom_def update_requesting_users_def request_set_author_def
        request_set_classroom_def request_set_requesting_users_def reload_request_def
        serialize_request_def Let_def)
  then have run: "?run = (Inr (projr (fst ?run)), snd ?run)"
    by (cases ?run; cases "fst ?run") auto
  have d: "\<not> (20::int) < 20" by simp
  from create_reservation_request_dates_and_stamp [of 20 20 42 2 1 "[''al'']" campus] d
  have r1: "create_reservation_request 42 20 20 2 1 [''al''] campus = (Inl Invalid_dates, campus)"
    by blast
  from create_reservation_request_dates_and_stamp
    [of 10 20 42 2 1 "[''al'', ''bea'']" campus "projr (fst ?run)" "snd ?run"] run
  have r2: "\<not> rj_is_approved (projr (fst ?run)) \<and> rj_registration_date (projr (fst ?run)) = 42"
    by blast
  show ?thesis using d r1 r2 ok run by (metis fst_conv)
qed

section \<open>Department managers\<close>

text \<open>
  Claim C7. Let user A, found by \<open>login\<close>, be no administrator and let the department
  of classroom C have A's id as \<open>manager_id\<close>. Then
  \<^verbatim>\<open>is_user_admin_or_manager_of_department_by_classroom(login, C.id)\<close> returns \<open>True\<close>.
  After a department update that sets the manager id to another user's id (ids are
  non-zero; the update succeeded, so that user exists), the same call raises
  "Access denied".
\<close>

theorem department_manager_by_classroom_scenario:
  "get_user_by_login s login = Some a \<and> \<not> u_is_admin a
   \<and> get_classroom_by_id s classroom_id = Some c \<and> c_department_id c = Some department_id
   \<and> get_department_by_id s department_id = Some d \<and> d_manager_id d = Some (u_id a)
   \<longrightarrow>
   is_user_admin_or_manager_of_department_by_classroom s login (Some classroom_id) = Inr True
   \<and> (other_id \<noteq> 0 \<and> other_id \<noteq> u_id a
        \<and> update_department department_id nfn ncn (Some other_id) s = (Inr j, s')
      \<longrightarrow> is_user_admin_or_manager_of_department_by_classroom s' login (Some classroom_id)
            = Inl Access_denied_neither_administrator_nor_department_manager)"
proof (intro impI conjI)
  assume h: "get_user_by_login s login = Some a \<and> \<not> u_is_admin a
   \<and> get_classroom_by_id s classroom_id = Some c \<and> c_department_id c = Some department_id
   \<and> get_department_by_id s department_id = Some d \<and> d_manager_id d = Some (u_id a)"
  then show "is_user_admin_or_manager_of_department_by_classroom s login (Some classroom_id)
      = Inr True"
    by (simp add: is_user_admin_or_manager_of_department_by_classroom_def is_user_admin_def
        is_user_manager_of_department_by_classroom_def by_nullable_id_def)
  assume u: "other_id \<noteq> 0 \<and> other_id \<noteq> u_id a
        \<and> update_department department_id nfn ncn (Some other_id) s = (Inr j, s')"
  from update_department_manager_effect [of department_id nfn ncn other_id s j s' d] u h
  obtain d' where ut: "user_table s' = user_table s"
    and ct: "classroom_table s' = classroom_table s"
    and d': "get_department_by_id s' department_id = Some d'" "d_manager_id d' = Some other_id"
    by blast
  have "get_user_by_login s' login = Some a" using h ut by (simp add: get_user_by_login_def)
  moreover have "get_classroom_by_id s' classroom_id = Some c"
    using h ct by (simp add: get_classroom_by_id_def)
  ultimately show "is_user_admin_or_manager_of_department_by_classroom s' login
      (Some classroom_id) = Inl Access_denied_neither_administrator_nor_department_manager"
    using h u d'
    by (simp add: is_user_admin_or_manager_of_department_by_classroom_def is_user_admin_def
        is_user_manager_of_department_by_classroom_def by_nullable_id_def)
qed

text \<open>
  On the campus: \<open>al\<close> manages department 2, the department of classroom 1; the update
  makes \<open>carl\<close> (id 3) the manager.
\<close>

theorem department_manager_by_classroom_scenario_witness:
  "is_user_admin_or_manager_of_department_by_classroom campus ''al'' (Some 1) = Inr True
   \<and> (3::int) \<noteq> 0 \<and> 3 \<noteq> u_id (the (get_user_by_login campus ''al''))
   \<and> isl (fst (update_department 2 None None (Some 3) campus)) = False
   \<and> is_user_admin_or_manager_of_department_by_classroom
        (snd (update_department 2 None None (Some 3) campus)) ''al'' (Some 1)
       = Inl Access_denied_neither_administrator_nor_department_manager"
proof -
  let ?a = "the (get_user_by_login campus ''al'')"
  let ?c = "the (get_classroom_by_id campus 1)"
  let ?d = "the (get_department_by_id campus 2)"
  let ?run = "update_department 2 None None (Some 3) campus"
  have h: "get_user_by_login campus ''al'' = Some ?a \<and> \<not> u_is_admin ?a
     \<and> get_classroom_by_id campus 1 = Some ?c \<and> c_department_id ?c = Some 2
     \<and> get_department_by_id campus 2 = Some ?d \<and> d_manager_id ?d = Some (u_id ?a)"
    by (simp add: campus_queries)
  have ok: "isl (fst ?run) = False"
    by (simp add: campus_queries action_defs department_update_defs)
  then have run: "?run = (Inr (projr (fst ?run)), snd ?run)"
    by (cases ?run; cases "fst ?run") auto
  have o: "(3::int) \<noteq> 0 \<and> 3 \<noteq> u_id ?a" by (simp add: campus_queries)
  from department_manager_by_classroom_scenario
    [of campus "''al''" ?a 1 ?c 2 ?d 3 None None "projr (fst ?run)" "snd ?run"] h o run
  show ?thesis using ok by simp
qed

section \<open>Managers of a request\<close>

text \<open>
  Claim C2, evaluated. On the campus request 1 is for classroom 1, whose department 2
  has the id of \<open>al\<close> as \<open>manager_id\<close>. \<^verbatim>\<open>is_user_department_manager_in_request\<close>
  returns \<open>False\<close> for \<open>al\<close> and \<open>True\<close> for \<open>bea\<close>: it takes the department id 2 for a
  classroom id, and classroom 2 belongs to department 1, which \<open>bea\<close> manages.
\<close>

theorem department_manager_in_request_resolves_wrong_id:
  "map_option u_id (get_user_by_login campus ''al'') = Some 1
   \<and> map_option u_id (get_user_by_login campus ''bea'') = Some 2
   \<and> map_option r_classroom_id (get_request_by_id campus 1) = Some (Some 1)
   \<and> map_option c_department_id (get_classroom_by_id campus 1) = Some (Some 2)
   \<and> map_option d_manager_id (get_department_by_id campus 2) = Some (Some 1)
   \<and> is_user_department_manager_in_request campus ''al'' 1 = Inr False
   \<and> is_user_department_manager_in_request campus ''bea'' 1 = Inr True"
  by (simp add: campus_queries auth_defs)

text \<open>
  Claim C1, evaluated. On the campus \<open>al\<close> is the manager of the classroom of request 1
  and the manager of that classroom's department, and
  \<^verbatim>\<open>is_user_admin_or_manager_in_request\<close> raises "Access denied".
\<close>

theorem admin_or_manager_in_request_denies_managers:
  "map_option u_id (get_user_by_login campus ''al'') = Some 1
   \<and> map_option r_classroom_id (get_request_by_id campus 1) = Some (Some 1)
   \<and> map_option c_manager_id (get_classroom_by_id campus 1) = Some (Some 1)
   \<and> map_option c_department_id (get_classroom_by_id campus 1) = Some (Some 2)
   \<and> map_option d_manager_id (get_department_by_id campus 2) = Some (Some 1)
   \<and> is_user_admin_or_manager_in_request campus ''al'' 1
        = Inl Access_denied_no_rights_for_the_request"
  by (simp add: campus_queries auth_defs)

section \<open>Updates that fail\<close>





section \<open>The manager of a department\<close>

text \<open>
  Claim C6, as stated, fails: on the campus no user has id 9, and the department update
  with that manager id raises "No manager found" and stores nothing.
\<close>

theorem update_department_rejects_unknown_manager:
  "get_user_by_id campus 9 = None
   \<and> update_department 2 None None (Some 9) campus = (Inl (No_manager_found_with_ID 9), campus)"
  by (simp add: campus_queries action_defs department_update_defs)

text \<open>
  Claim C6, amended. The department update checks the manager id like every other
  relational field: with a manager id that is supplied (not zero) and refers to no user,
  the update raises and the \<open>manager_id\<close> of every department stays as it was; when the
  department exists and the two names are absent or valid the error is
  "No manager found".
\<close>

theorem update_department_checks_manager:
  "new_manager_id \<noteq> 0 \<and> get_user_by_id s new_manager_id = None \<longrightarrow>
   (\<exists>e s'. update_department department_id nfn ncn (Some new_manager_id) s = (Inl e, s')
      \<and> map d_manager_id (department_table s') = map d_manager_id (department_table s)
      \<and> (get_department_by_id s department_id \<noteq> None
          \<and> (\<forall>n. nfn = Some n \<longrightarrow> n = [] \<or> validate_full_name n)
          \<and> (\<forall>n. ncn = Some n \<longrightarrow> n = [] \<or> validate_code_name n)
         \<longrightarrow> e = No_manager_found_with_ID new_manager_id))"
  by (auto simp: update_department_def action_defs update_department_full_name_def
      update_department_code_name_def update_department_manager_def department_set_full_name_def
      department_set_code_name_def department_set_manager_id_def get_user_by_id_def o_def
      split: option.splits if_splits prod.splits sum.splits intro!: map_cong)

theorem update_department_checks_manager_witness:
  "(9::int) \<noteq> 0 \<and> get_user_by_id campus 9 = None
   \<and> get_department_by_id campus 2 \<noteq> None \<and> validate_full_name ''Physik''
   \<and> fst (update_department 2 (Some ''Physik'') None (Some 9) campus)
        = Inl (No_manager_found_with_ID 9)
   \<and> map d_manager_id (department_table
        (snd (update_department 2 (Some ''Physik'') None (Some 9) campus)))
        = map d_manager_id (department_table campus)"
proof -
  have h: "(9::int) \<noteq> 0 \<and> get_user_by_id campus 9 = None" by (simp add: campus_queries)
  have g: "get_department_by_id campus 2 \<noteq> None
     \<and> (\<forall>n. Some ''Physik'' = Some n \<longrightarrow> n = [] \<or> validate_full_name n)
     \<and> (\<forall>n. (None :: string option) = Some n \<longrightarrow> n = [] \<or> validate_code_name n)"
    by (simp add: campus_queries validate_full_name_def)
  from update_department_checks_manager [of 9 campus 2 "Some ''Physik''" None] h g
  obtain e s' where run: "update_department 2 (Some ''Physik'') None (Some 9) campus = (Inl e, s')"
    and same: "map d_manager_id (department_table s') = map d_manager_id (department_table campus)"
    and e: "e = No_manager_found_with_ID 9"
    by blast
  show ?thesis using h g run same e by simp
qed

section \<open>Privacy of a classroom\<close>

text \<open>
  Claim C9. A classroom update called with \<^verbatim>\<open>new_is_private=False\<close> is the same call as
  the one without that argument, and for every existing classroom the stored
  \<open>is_private\<close> is afterwards what it was before, \<open>True\<close> or \<open>False\<close>, whatever the other
  arguments are and whether or not the call raises.
\<close>

theorem update_classroom_is_private_False_ignored:
  "update_classroom classroom_id nn nb nd nm (Some False)
     = update_classroom classroom_id nn nb nd nm None
   \<and> (get_classroom_by_id s classroom_id = Some c \<longrightarrow>
        (\<exists>c'. get_classroom_by_id
                 (snd (update_classroom classroom_id nn nb nd nm (Some False) s)) classroom_id
               = Some c'
             \<and> c_is_private c' = c_is_private c))"
proof -
  have same: "update_classroom classroom_id nn nb nd nm (Some False)
     = update_classroom classroom_id nn nb nd nm None"
    by (simp add: update_classroom_def if_bool_def cong: option.case_cong)
  show ?thesis
    using same same_privacy_find [OF update_classroom_keeps_privacy,
        of classroom_id s c classroom_id nn nb nd nm]
    by (simp add: get_classroom_by_id_def)
qed

text \<open>On the campus classroom 1 is private, and stays so.\<close>

theorem update_classroom_is_private_False_ignored_witness:
  "map_option c_is_private (get_classroom_by_id campus 1) = Some True
   \<and> map_option c_is_private (get_classroom_by_id
        (snd (update_classroom 1 (Some ''R1b'') None None None (Some False) campus)) 1)
       = Some True"
proof -
  let ?c = "the (get_classroom_by_id campus 1)"
  have h: "get_classroom_by_id campus 1 = Some ?c \<and> c_is_private ?c"
    by (simp add: campus_queries)
  from update_classroom_is_private_False_ignored [of 1 "Some ''R1b''" None None None campus ?c] h
  show ?thesis by auto
qed

section \<open>Creating buildings\<close>

text \<open>
  With primary keys distinct, a valid pair that no existing building has on one record is
  accepted: the first building with the name and the first with the address, if both
  exist, are different records.
\<close>

lemma find_Some_mem: "find P xs = Some x \<Longrightarrow> x \<in> set xs"
  by (induction xs) (auto split: if_splits)

lemma create_building_succeeds_without_pair:
  assumes valid: "building_validate_name name" "validate_address address"
    and ids: "distinct (map b_id (building_table s))"
    and no_pair: "\<And>b. b \<in> set (building_table s) \<Longrightarrow> b_name b \<noteq> name \<or> b_address b \<noteq> address"
  shows "\<exists>j s'. create_building name address s = (Inr j, s')"
proof -
  have no_conflict: "\<not> (case (get_building_by_name s name, get_building_by_address s address) of
                (Some by_name, Some by_address) \<Rightarrow> b_id by_name = b_id by_address
              | _ \<Rightarrow> False)"
  proof (cases "get_building_by_name s name")
    case None
    then show ?thesis by simp
  next
    case (Some x)
    note x = this
    show ?thesis
    proof (cases "get_building_by_address s address")
      case None
      then show ?thesis using x by simp
    next
      case (Some y)
      have xs: "x \<in> set (building_table s)" "b_name x = name"
        using x find_Some_mem find_Some_holds unfolding get_building_by_name_def by fast+
      have ys: "y \<in> set (building_table s)" "b_address y = address"
        using Some find_Some_mem find_Some_holds unfolding get_building_by_address_def by fast+
      have "b_id x \<noteq> b_id y"
      proof
        assume "b_id x = b_id y"
        with ids xs(1) ys(1) have "x = y" by (meson distinct_map inj_onD)
        with xs ys no_pair [of x] show False by simp
      qed
      then show ?thesis using x Some by simp
    qed
  qed
  then show ?thesis using valid
    by (simp add: create_building_def action_defs repo_create_building_def Let_def
        split: option.splits)
qed

text \<open>
  Claim C4, evaluated. Starting from the empty store, a building \<open>Main\<close> is created at
  \<open>Main Street 1\<close> and a second \<open>Main\<close> at \<open>Side Street 2\<close>. Creating \<open>Main\<close> at
  \<open>Side Street 2\<close> once more succeeds, as building 3: the first building named \<open>Main\<close> is
  building 1, the first at \<open>Side Street 2\<close> is building 2, and their ids differ.
\<close>

theorem create_building_accepts_duplicate_pair:
  "building_table
      (snd (create_building ''Main'' ''Side Street 2''
        (snd (create_building ''Main'' ''Main Street 1'' empty_store))))
     = [\<lparr>b_id = 1, b_name = ''Main'', b_address = ''Main Street 1''\<rparr>,
        \<lparr>b_id = 2, b_name = ''Main'', b_address = ''Side Street 2''\<rparr>]
   \<and> fst (create_building ''Main'' ''Side Street 2''
        (snd (create_building ''Main'' ''Side Street 2''
          (snd (create_building ''Main'' ''Main Street 1'' empty_store)))))
     = Inr \<lparr>bj_id = 3, bj_name = ''Main'', bj_address = ''Side Street 2'', bj_classrooms = []\<rparr>
   \<and> building_table
      (snd (create_building ''Main'' ''Side Street 2''
        (snd (create_building ''Main'' ''Side Street 2''
          (snd (create_building ''Main'' ''Main Street 1'' empty_store))))))
     = [\<lparr>b_id = 1, b_name = ''Main'', b_address = ''Main Street 1''\<rparr>,
        \<lparr>b_id = 2, b_name = ''Main'', b_address = ''Side Street 2''\<rparr>,
        \<lparr>b_id = 3, b_name = ''Main'', b_address = ''Side Street 2''\<rparr>]"
  by code_simp

end
